theory Spec2Isabelle
  imports Complex_Main
begin

section \<open>Python values used by the orchestrator\<close>

text \<open>
  A Python \<^verbatim>\<open>str\<close> is a sequence of Unicode code points, and \<^verbatim>\<open>len\<close> counts code
  points. A string is therefore a list of code points (natural numbers), not a list of
  8-bit characters. Literals of the source are written \<open>u ''...''\<close>.
\<close>

type_synonym pystr = "nat list"

abbreviation u :: "string \<Rightarrow> pystr" where
  "u s \<equiv> map of_char s"

text \<open>
  The character tables of Unicode are part of the Python runtime, not of the repository.
  On ASCII the classification is written out below; beyond ASCII it is a parameter:
  \<open>isalnum_ext\<close> is \<^verbatim>\<open>str.isalnum\<close> on a code point of 128 or more, \<open>lower_ext\<close> is
  \<^verbatim>\<open>str.lower\<close> on a string that holds such a code point (lower-casing is not
  character-wise there: it can change the length and looks at the context).
\<close>

record unicode_db =
  isalnum_ext :: "nat \<Rightarrow> bool"
  lower_ext :: "pystr \<Rightarrow> pystr"

definition py_isalnum :: "unicode_db \<Rightarrow> nat \<Rightarrow> bool" where
  "py_isalnum U c =
     (if c < 128
      then (48 \<le> c \<and> c \<le> 57) \<or> (65 \<le> c \<and> c \<le> 90) \<or> (97 \<le> c \<and> c \<le> 122)
      else isalnum_ext U c)"

definition ascii_lower :: "nat \<Rightarrow> nat" where
  "ascii_lower c = (if 65 \<le> c \<and> c \<le> 90 then c + 32 else c)"

definition py_lower :: "unicode_db \<Rightarrow> pystr \<Rightarrow> pystr" where
  "py_lower U s = (if list_all (\<lambda>c. c < 128) s then map ascii_lower s else lower_ext U s)"

text \<open>
  \<^verbatim>\<open>str.isspace\<close> on one code point, which is also the set that \<^verbatim>\<open>rstrip()\<close> and
  \<^verbatim>\<open>split()\<close> without arguments use: the code points CPython lists as whitespace.
\<close>

definition py_isspace :: "nat \<Rightarrow> bool" where
  "py_isspace c =
     ((9 \<le> c \<and> c \<le> 13) \<or> (28 \<le> c \<and> c \<le> 32) \<or> c = 133 \<or> c = 160 \<or> c = 5760
      \<or> (8192 \<le> c \<and> c \<le> 8202) \<or> c = 8232 \<or> c = 8233 \<or> c = 8239 \<or> c = 8287
      \<or> c = 12288)"

definition py_rstrip :: "pystr \<Rightarrow> pystr" where
  "py_rstrip s = rev (dropWhile py_isspace (rev s))"

text \<open>
  \<^verbatim>\<open>s.replace(old, new)\<close>: the occurrences of \<open>old\<close> are found from the left and do not
  overlap. With an empty \<open>old\<close>, \<open>new\<close> is put before every character and at the end.
\<close>

fun replace_scan :: "pystr \<Rightarrow> pystr \<Rightarrow> pystr \<Rightarrow> pystr" where
  "replace_scan old new [] = []"
| "replace_scan old new (c # cs) =
     (if take (length old) (c # cs) = old
      then new @ replace_scan old new (drop (length old - 1) cs)
      else c # replace_scan old new cs)"

definition py_replace :: "pystr \<Rightarrow> pystr \<Rightarrow> pystr \<Rightarrow> pystr" where
  "py_replace old new s =
     (if old = [] then new @ concat (map (\<lambda>c. c # new) s) else replace_scan old new s)"

text \<open>
  \<^verbatim>\<open>s.split()\<close>: runs of whitespace separate the tokens, and there is no empty token.
  \<open>split_ws cur s\<close> scans \<open>s\<close> with the token read so far in \<open>cur\<close>.
\<close>

fun split_ws :: "pystr \<Rightarrow> pystr \<Rightarrow> pystr list" where
  "split_ws cur [] = (if cur = [] then [] else [cur])"
| "split_ws cur (c # cs) =
     (if py_isspace c
      then (if cur = [] then split_ws [] cs else cur # split_ws [] cs)
      else split_ws (cur @ [c]) cs)"

definition py_split :: "pystr \<Rightarrow> pystr list" where
  "py_split s = split_ws [] s"

subsection \<open>Decimal formatting and timestamps\<close>

fun decimal :: "nat \<Rightarrow> pystr" where
  "decimal n = (if n < 10 then [48 + n] else decimal (n div 10) @ [48 + n mod 10])"

declare decimal.simps [simp del]

definition zpad :: "nat \<Rightarrow> pystr \<Rightarrow> pystr" where
  "zpad w s = replicate (w - length s) 48 @ s"

text \<open>
  A naive \<^verbatim>\<open>datetime\<close>, as \<^verbatim>\<open>datetime.now()\<close> returns it, with the fields it is made of.
\<close>

record datetime =
  year :: nat
  month :: nat
  day :: nat
  hour :: nat
  minute :: nat
  second :: nat
  microsecond :: nat

text \<open>\<^verbatim>\<open>timestamp.strftime("%Y%m%d_%H%M%S")\<close>, the year zero-padded to four digits.\<close>

definition strftime_compact :: "datetime \<Rightarrow> pystr" where
  "strftime_compact t =
     zpad 4 (decimal (year t)) @ zpad 2 (decimal (month t)) @ zpad 2 (decimal (day t))
     @ u ''_''
     @ zpad 2 (decimal (hour t)) @ zpad 2 (decimal (minute t)) @ zpad 2 (decimal (second t))"

section \<open>Output file names\<close>

text \<open>
  The first two statements of \<^verbatim>\<open>_get_output_files\<close> and of \<^verbatim>\<open>save_output_files\<close>
  are the same; \<open>safe_topic\<close> is the value they leave in the variable of that name.
\<close>

definition safe_topic :: "unicode_db \<Rightarrow> pystr \<Rightarrow> pystr" where
  "safe_topic U topic =
     py_lower U
       (py_replace (u '' '') (u ''_'')
          (py_rstrip (filter (\<lambda>c. py_isalnum U c \<or> c = 32 \<or> c = 45 \<or> c = 95) topic)))"

definition file_stem :: "unicode_db \<Rightarrow> pystr \<Rightarrow> datetime \<Rightarrow> pystr" where
  "file_stem U topic timestamp =
     u ''outputs/blog_posts/'' @ safe_topic U topic @ u ''_'' @ strftime_compact timestamp"

definition get_output_files :: "unicode_db \<Rightarrow> pystr \<Rightarrow> datetime \<Rightarrow> pystr list" where
  "get_output_files U topic timestamp =
     [file_stem U topic timestamp @ u ''.md'',
      file_stem U topic timestamp @ u ''.html'',
      file_stem U topic timestamp @ u ''.txt'',
      file_stem U topic timestamp @ u ''_metadata.json'']"

section \<open>Time differences and their renderings\<close>

text \<open>
  \<^verbatim>\<open>end_time - start_time\<close> is a \<^verbatim>\<open>timedelta\<close>. Python keeps it normalised, so it
  is determined by its length in microseconds, which is what the model keeps. The day
  number of a date is computed as the \<^verbatim>\<open>datetime\<close> module does.
\<close>

type_synonym timedelta = int

definition is_leap :: "nat \<Rightarrow> bool" where
  "is_leap y = (y mod 4 = 0 \<and> (y mod 100 \<noteq> 0 \<or> y mod 400 = 0))"

definition days_before_year :: "nat \<Rightarrow> int" where
  "days_before_year y =
     (let y1 = int y - 1 in y1 * 365 + y1 div 4 - y1 div 100 + y1 div 400)"

definition days_before_month :: "nat \<Rightarrow> nat \<Rightarrow> int" where
  "days_before_month y m =
     int (sum_list (take (m - 1) [31, 28, 31, 30, 31, 30, 31, 31, 30, 31, 30, 31]))
     + (if 2 < m \<and> is_leap y then 1 else 0)"

definition toordinal :: "datetime \<Rightarrow> int" where
  "toordinal t = days_before_year (year t) + days_before_month (year t) (month t) + int (day t)"

definition dt_sub :: "datetime \<Rightarrow> datetime \<Rightarrow> timedelta" where
  "dt_sub a b =
     ((toordinal a - toordinal b) * 86400
      + (int (second a) + int (minute a) * 60 + int (hour a) * 3600)
      - (int (second b) + int (minute b) * 60 + int (hour b) * 3600)) * 1000000
     + (int (microsecond a) - int (microsecond b))"

text \<open>
  Python floats are modelled as real numbers: \<^verbatim>\<open>total_seconds()\<close> and the arithmetic on
  the average are exact here, and rounding is not part of the model.
\<close>

definition total_seconds :: "timedelta \<Rightarrow> real" where
  "total_seconds d = real_of_int d / 1000000"

definition decimal_int :: "int \<Rightarrow> pystr" where
  "decimal_int i = (if i < 0 then u ''-'' @ decimal (nat (- i)) else decimal (nat i))"

text \<open>\<^verbatim>\<open>str(duration)\<close>, as \<^verbatim>\<open>timedelta.__str__\<close> builds it.\<close>

definition str_timedelta :: "timedelta \<Rightarrow> pystr" where
  "str_timedelta d =
     (let days = d div 86400000000;
          seconds = (d mod 86400000000) div 1000000;
          microseconds = d mod 1000000;
          ss = seconds mod 60;
          mm = (seconds div 60) mod 60;
          hh = (seconds div 60) div 60;
          s = decimal (nat hh) @ u '':'' @ zpad 2 (decimal (nat mm)) @ u '':''
              @ zpad 2 (decimal (nat ss));
          s1 = (if days \<noteq> 0
                then decimal_int days @ u '' day'' @ (if \<bar>days\<bar> \<noteq> 1 then u ''s'' else [])
                     @ u '', '' @ s
                else s)
      in if microseconds \<noteq> 0 then s1 @ u ''.'' @ zpad 6 (decimal (nat microseconds)) else s1)"

text \<open>\<^verbatim>\<open>timestamp.isoformat()\<close>.\<close>

definition isoformat :: "datetime \<Rightarrow> pystr" where
  "isoformat t =
     (let s = zpad 4 (decimal (year t)) @ u ''-'' @ zpad 2 (decimal (month t)) @ u ''-''
              @ zpad 2 (decimal (day t)) @ u ''T'' @ zpad 2 (decimal (hour t)) @ u '':''
              @ zpad 2 (decimal (minute t)) @ u '':'' @ zpad 2 (decimal (second t))
      in if microsecond t \<noteq> 0 then s @ u ''.'' @ zpad 6 (decimal (microsecond t)) else s)"

section \<open>Dictionaries, files and the metrics of the orchestrator\<close>

text \<open>
  The values that the orchestrator puts into its dictionaries. A dictionary keeps its
  keys in insertion order; every key of the source is an ASCII literal, written as such.
\<close>

datatype pyval =
    PStr pystr
  | PInt int
  | PFloat real
  | PBool bool
  | PList "pyval list"
  | PDict "(string \<times> pyval) list"

type_synonym pydict = "(string \<times> pyval) list"

definition has_key :: "pydict \<Rightarrow> string \<Rightarrow> bool" where
  "has_key d k = (map_of d k \<noteq> None)"

text \<open>
  A file holds the text written to it, or, for \<^verbatim>\<open>json.dump\<close>, the value that was
  serialised. \<open>unwritable\<close> says for which paths \<^verbatim>\<open>open\<close> or the write raises; the
  file system is then left as it was.
\<close>

datatype fcontent = Text pystr | Json pyval

type_synonym filesystem = "pystr \<rightharpoonup> fcontent"

definition write_file ::
  "(pystr \<Rightarrow> bool) \<Rightarrow> pystr \<Rightarrow> fcontent \<Rightarrow> filesystem \<Rightarrow> filesystem option" where
  "write_file unwritable path c fs = (if unwritable path then None else Some (fs(path \<mapsto> c)))"

text \<open>\<^verbatim>\<open>self.workflow_metrics\<close>, with the values \<^verbatim>\<open>__init__\<close> gives it.\<close>

record metrics =
  total_runs :: int
  successful_runs :: int
  failed_runs :: int
  total_cost :: real
  avg_duration :: real

definition init_metrics :: metrics where
  "init_metrics =
     \<lparr>total_runs = 0, successful_runs = 0, failed_runs = 0, total_cost = 0, avg_duration = 0\<rparr>"

definition estimate_cost :: real where
  "estimate_cost =
     (let estimated_tokens = 15000; cost_per_1k_tokens = 0.002
      in (estimated_tokens / 1000) * cost_per_1k_tokens)"

definition get_performance_metrics :: "datetime \<Rightarrow> metrics \<Rightarrow> pydict" where
  "get_performance_metrics now m =
     [(''total_runs'', PInt (total_runs m)),
      (''successful_runs'', PInt (successful_runs m)),
      (''failed_runs'', PInt (failed_runs m)),
      (''success_rate'',
         (if 0 < total_runs m
          then PFloat (real_of_int (successful_runs m) / real_of_int (total_runs m) * 100)
          else PInt 0)),
      (''average_duration_seconds'', PFloat (avg_duration m)),
      (''estimated_cost_per_run'', PFloat estimate_cost),
      (''last_updated'', PStr (isoformat now))]"

section \<open>One run of the workflow\<close>

text \<open>
  An exception object: \<open>message\<close> is \<^verbatim>\<open>str(e)\<close> and \<open>trace\<close> is what
  \<^verbatim>\<open>traceback.format_exc()\<close> returns for it. The exceptions of the model are the
  instances of \<^verbatim>\<open>Exception\<close>, the ones an \<^verbatim>\<open>except Exception\<close> clause handles;
  \<^verbatim>\<open>KeyboardInterrupt\<close> and \<^verbatim>\<open>SystemExit\<close> are not part of it.
\<close>

record exn =
  message :: pystr
  trace :: pystr

text \<open>
  What the external framework gives back when \<^verbatim>\<open>crew.kickoff\<close> returns:
  \<^verbatim>\<open>str(result)\<close>, \<^verbatim>\<open>len(crew.agents)\<close> and \<^verbatim>\<open>len(crew.tasks)\<close>.
\<close>

record crew_result =
  result_text :: pystr
  n_agents :: int
  n_tasks :: int

text \<open>
  Everything one call of \<^verbatim>\<open>run_workflow\<close> takes from outside the orchestrator:
  the clock at each \<^verbatim>\<open>datetime.now()\<close>, the outcome of the calls into the framework
  (\<^verbatim>\<open>create_tasks\<close>, \<^verbatim>\<open>create_crew\<close>, \<^verbatim>\<open>crew.kickoff\<close>: one of them raises, or
  \<^verbatim>\<open>kickoff\<close> returns), what the pipeline did to the files meanwhile, and which paths
  cannot be written. Messages to the logger are not modelled.
\<close>

record run_env =
  now_start :: datetime
  driver :: "exn + crew_result"
  driver_effect :: "filesystem \<Rightarrow> filesystem"
  now_end :: datetime
  now_metrics :: datetime
  now_save :: datetime
  unwritable :: "pystr \<Rightarrow> bool"

definition save_workflow_results :: "run_env \<Rightarrow> pydict \<Rightarrow> filesystem \<Rightarrow> filesystem" where
  "save_workflow_results env results fs =
     (let timestamp = strftime_compact (now_save env);
          filename = u ''outputs/metrics/workflow_results_'' @ timestamp @ u ''.json''
      in case write_file (unwritable env) filename (Json (PDict results)) fs of
           Some fs' \<Rightarrow> fs'
         | None \<Rightarrow> fs)"

definition save_error_report :: "run_env \<Rightarrow> pydict \<Rightarrow> filesystem \<Rightarrow> filesystem" where
  "save_error_report env error_details fs =
     (let timestamp = strftime_compact (now_save env);
          filename = u ''outputs/logs/error_report_'' @ timestamp @ u ''.json''
      in case write_file (unwritable env) filename (Json (PDict error_details)) fs of
           Some fs' \<Rightarrow> fs'
         | None \<Rightarrow> fs)"

text \<open>
  \<^verbatim>\<open>run_workflow\<close>. The \<^verbatim>\<open>try\<close> block is the \<open>Inr\<close> branch and the
  \<^verbatim>\<open>except Exception\<close> clause the \<open>Inl\<close> branch of the driver's outcome. The call
  returns \<open>Inr\<close> of the dictionary it returns, and \<open>Inl\<close> of an exception it lets through.
\<close>

definition run_workflow ::
  "unicode_db \<Rightarrow> run_env \<Rightarrow> pystr \<Rightarrow> int \<Rightarrow> metrics \<Rightarrow> filesystem
     \<Rightarrow> (exn + pydict) \<times> metrics \<times> filesystem" where
  "run_workflow U env topic word_count m fs =
     (let m1 = m\<lparr>total_runs := total_runs m + 1\<rparr>;
          start_time = now_start env;
          fs1 = driver_effect env fs
      in case driver env of
           Inr result \<Rightarrow>
             (let end_time = now_end env;
                  duration = dt_sub end_time start_time;
                  m2 = m1\<lparr>successful_runs := successful_runs m1 + 1\<rparr>;
                  m3 = m2\<lparr>avg_duration :=
                          (avg_duration m2 * real_of_int (successful_runs m2 - 1)
                           + total_seconds duration) / real_of_int (successful_runs m2)\<rparr>;
                  workflow_results =
                    [(''topic'', PStr topic),
                     (''word_count'', PInt word_count),
                     (''start_time'', PStr (isoformat start_time)),
                     (''end_time'', PStr (isoformat end_time)),
                     (''duration'', PStr (str_timedelta duration)),
                     (''duration_seconds'', PFloat (total_seconds duration)),
                     (''final_output'', PStr (result_text result)),
                     (''agents_used'', PInt (n_agents result)),
                     (''tasks_completed'', PInt (n_tasks result)),
                     (''success'', PBool True),
                     (''output_files'', PList (map PStr (get_output_files U topic start_time))),
                     (''metrics'', PDict (get_performance_metrics (now_metrics env) m3))];
                  fs2 = save_workflow_results env workflow_results fs1
              in (Inr workflow_results, m3, fs2))
         | Inl e \<Rightarrow>
             (let end_time = now_end env;
                  duration = dt_sub end_time start_time;
                  m2 = m1\<lparr>failed_runs := failed_runs m1 + 1\<rparr>;
                  error_details =
                    [(''topic'', PStr topic),
                     (''word_count'', PInt word_count),
                     (''start_time'', PStr (isoformat start_time)),
                     (''end_time'', PStr (isoformat end_time)),
                     (''duration'', PStr (str_timedelta duration)),
                     (''error'', PStr (message e)),
                     (''traceback'', PStr (trace e)),
                     (''success'', PBool False)];
                  fs2 = save_error_report env error_details fs1
              in (Inr error_details, m2, fs2)))"

section \<open>Batch processing\<close>

text \<open>
  The loop of \<^verbatim>\<open>batch_process\<close>; \<open>E i\<close> is the environment of the run of the topic
  at index \<open>i\<close>. Inside the \<^verbatim>\<open>try\<close> the result is appended first and
  \<^verbatim>\<open>result["success"]\<close> is read next, which raises \<^verbatim>\<open>KeyError\<close> on a dictionary
  without that key (its message is the key between two apostrophes, code point 39); the
  \<^verbatim>\<open>except\<close> clause appends a three-key dictionary.
\<close>

definition batch_error :: "pystr \<Rightarrow> pystr \<Rightarrow> pydict" where
  "batch_error topic msg = [(''topic'', PStr topic), (''error'', PStr msg), (''success'', PBool False)]"

fun batch_loop ::
  "unicode_db \<Rightarrow> (nat \<Rightarrow> run_env) \<Rightarrow> nat \<Rightarrow> pystr list \<Rightarrow> int \<Rightarrow> pydict list \<Rightarrow> metrics
     \<Rightarrow> filesystem \<Rightarrow> pydict list \<times> metrics \<times> filesystem" where
  "batch_loop U E i [] word_count results m fs = (results, m, fs)"
| "batch_loop U E i (topic # rest) word_count results m fs =
     (case run_workflow U (E i) topic word_count m fs of
        (Inr result, m', fs') \<Rightarrow>
          (case map_of result ''success'' of
             Some _ \<Rightarrow> batch_loop U E (Suc i) rest word_count (results @ [result]) m' fs'
           | None \<Rightarrow>
               batch_loop U E (Suc i) rest word_count
                 (results @ [result] @ [batch_error topic (39 # u ''success'' @ [39])]) m' fs')
      | (Inl e, m', fs') \<Rightarrow>
          batch_loop U E (Suc i) rest word_count
            (results @ [batch_error topic (message e)]) m' fs')"

definition batch_process ::
  "unicode_db \<Rightarrow> (nat \<Rightarrow> run_env) \<Rightarrow> pystr list \<Rightarrow> int \<Rightarrow> metrics \<Rightarrow> filesystem
     \<Rightarrow> pydict list \<times> metrics \<times> filesystem" where
  "batch_process U E topics word_count m fs = batch_loop U E 0 topics word_count [] m fs"

section \<open>Writing the artifacts\<close>

text \<open>
  The three literal parts of the template of \<^verbatim>\<open>html_content\<close>: up to the topic,
  between the topic and the content, and after the content. The topic and the content
  are put in as they are. (The expression that replaces the newlines stands inside the
  formatted string literal with a backslash in it, which Python accepts from version
  3.12 on; the model is of the module as such a Python runs it.)
\<close>

definition html_head :: string where
  \<open>html_head =
     ''<!DOCTYPE html>\<newline>''
     @ ''<html>\<newline>''
     @ ''<head>\<newline>''
     @ ''    <title>''\<close>

definition html_mid :: string where
  \<open>html_mid =
     ''</title>\<newline>''
     @ ''    <meta charset="UTF-8">\<newline>''
     @ ''    <meta name="viewport" content="width=device-width, initial-scale=1.0">\<newline>''
     @ ''    <style>\<newline>''
     @ ''        body { font-family: Arial, sans-serif; line-height: 1.6; margin: 40px; }\<newline>''
     @ ''        h1, h2, h3 { color: #333; }\<newline>''
     @ ''        p { margin-bottom: 16px; }\<newline>''
     @ ''        pre { background-color: #f4f4f4; padding: 10px; border-radius: 5px; }\<newline>''
     @ ''    </style>\<newline>''
     @ ''</head>\<newline>''
     @ ''<body>\<newline>''
     @ ''    <div id="content">\<newline>''
     @ ''        ''\<close>

definition html_tail :: string where
  \<open>html_tail =
     ''\<newline>''
     @ ''    </div>\<newline>''
     @ ''</body>\<newline>''
     @ ''</html>''\<close>

definition html_content :: "pystr \<Rightarrow> pystr \<Rightarrow> pystr" where
  "html_content topic content =
     u html_head @ topic @ u html_mid
     @ py_replace (u ''\<newline>'') (u ''<br>'') content @ u html_tail"

text \<open>
  \<^verbatim>\<open>save_output_files\<close>. The four writes are in one \<^verbatim>\<open>try\<close>: the first that raises
  ends the function, which returns the entries made so far. The metadata is dumped
  before its own path is added to \<^verbatim>\<open>files_saved\<close>, so \<open>files_created\<close> has three
  entries.
\<close>

definition metadata_of ::
  "pystr \<Rightarrow> pystr \<Rightarrow> datetime \<Rightarrow> (string \<times> pystr) list \<Rightarrow> pydict" where
  "metadata_of topic content timestamp files_saved =
     [(''topic'', PStr topic),
      (''timestamp'', PStr (isoformat timestamp)),
      (''word_count'', PInt (int (length (py_split content)))),
      (''character_count'', PInt (int (length content))),
      (''files_created'', PDict (map (\<lambda>(k, p). (k, PStr p)) files_saved)),
      (''created_by'', PStr (u ''WorkflowOrchestrator''))]"

definition save_output_files ::
  "unicode_db \<Rightarrow> (pystr \<Rightarrow> bool) \<Rightarrow> pystr \<Rightarrow> pystr \<Rightarrow> datetime \<Rightarrow> filesystem
     \<Rightarrow> (string \<times> pystr) list \<times> filesystem" where
  "save_output_files U W topic content timestamp fs =
     (let md_filename = file_stem U topic timestamp @ u ''.md''
      in case write_file W md_filename (Text content) fs of
           None \<Rightarrow> ([], fs)
         | Some fs1 \<Rightarrow>
     (let files_saved1 = [(''markdown'', md_filename)];
          txt_filename = file_stem U topic timestamp @ u ''.txt''
      in case write_file W txt_filename (Text content) fs1 of
           None \<Rightarrow> (files_saved1, fs1)
         | Some fs2 \<Rightarrow>
     (let files_saved2 = files_saved1 @ [(''text'', txt_filename)];
          html_filename = file_stem U topic timestamp @ u ''.html''
      in case write_file W html_filename (Text (html_content topic content)) fs2 of
           None \<Rightarrow> (files_saved2, fs2)
         | Some fs3 \<Rightarrow>
     (let files_saved3 = files_saved2 @ [(''html'', html_filename)];
          metadata = metadata_of topic content timestamp files_saved3;
          json_filename = file_stem U topic timestamp @ u ''_metadata.json''
      in case write_file W json_filename (Json (PDict metadata)) fs3 of
           None \<Rightarrow> (files_saved3, fs3)
         | Some fs4 \<Rightarrow> (files_saved3 @ [(''metadata'', json_filename)], fs4)))))"

section \<open>The operations of an orchestrator\<close>

text \<open>
  The public methods, as steps on the state they share: the metrics of the orchestrator
  and the file system. A method that assigns to neither is a step that leaves the state
  as it is.
\<close>

datatype op =
    RunWorkflow run_env pystr int
  | BatchProcess "nat \<Rightarrow> run_env" "pystr list" int
  | GetPerformanceMetrics datetime
  | GetOutputFiles pystr datetime
  | SaveOutputFiles "pystr \<Rightarrow> bool" pystr pystr datetime

fun exec :: "unicode_db \<Rightarrow> op \<Rightarrow> metrics \<times> filesystem \<Rightarrow> metrics \<times> filesystem" where
  "exec U (RunWorkflow env topic word_count) (m, fs) =
     snd (run_workflow U env topic word_count m fs)"
| "exec U (BatchProcess E topics word_count) (m, fs) =
     snd (batch_process U E topics word_count m fs)"
| "exec U (GetPerformanceMetrics now) (m, fs) = (m, fs)"
| "exec U (GetOutputFiles topic timestamp) (m, fs) = (m, fs)"
| "exec U (SaveOutputFiles W topic content timestamp) (m, fs) =
     (m, snd (save_output_files U W topic content timestamp fs))"

inductive reachable :: "unicode_db \<Rightarrow> metrics \<times> filesystem \<Rightarrow> bool" for U where
  fresh: "reachable U (init_metrics, fs)"
| step: "reachable U s \<Longrightarrow> reachable U (exec U operation s)"

text \<open>A sequence of calls of \<^verbatim>\<open>run_workflow\<close> on one orchestrator, with the results.\<close>

fun run_all ::
  "unicode_db \<Rightarrow> (run_env \<times> pystr \<times> int) list \<Rightarrow> metrics \<Rightarrow> filesystem
     \<Rightarrow> (exn + pydict) list \<times> metrics \<times> filesystem" where
  "run_all U [] m fs = ([], m, fs)"
| "run_all U ((env, topic, word_count) # rest) m fs =
     (case run_workflow U env topic word_count m fs of
        (r, m', fs') \<Rightarrow>
          (case run_all U rest m' fs' of (rs, m'', fs'') \<Rightarrow> (r # rs, m'', fs'')))"

section \<open>Notions the properties are stated with\<close>

definition run_succeeds :: "run_env \<Rightarrow> bool" where
  "run_succeeds env = (case driver env of Inr _ \<Rightarrow> True | Inl _ \<Rightarrow> False)"

text \<open>The duration of a run in seconds, as \<^verbatim>\<open>duration.total_seconds()\<close> gives it.\<close>

definition run_duration :: "run_env \<Rightarrow> real" where
  "run_duration env = total_seconds (dt_sub (now_end env) (now_start env))"

definition successful_durations :: "(run_env \<times> pystr \<times> int) list \<Rightarrow> real list" where
  "successful_durations runs =
     map (\<lambda>(env, topic, word_count). run_duration env)
       (filter (\<lambda>(env, topic, word_count). run_succeeds env) runs)"

definition mean :: "real list \<Rightarrow> real" where
  "mean ds = sum_list ds / real (length ds)"

text \<open>
  The number of whitespace-delimited tokens of a text, in the words of the specification
  and without reference to \<open>py_split\<close>: the number of places where a token begins, that
  is, of characters that are not whitespace and stand first or after whitespace.
\<close>

definition token_count :: "pystr \<Rightarrow> nat" where
  "token_count s =
     length (filter (\<lambda>i. \<not> py_isspace (s ! i) \<and> (i = 0 \<or> py_isspace (s ! (i - 1))))
               [0..<length s])"

text \<open>
  The content with every newline replaced by a line-break tag and nothing else changed,
  in the words of the specification and without reference to \<open>py_replace\<close>.
\<close>

definition br_expand :: "pystr \<Rightarrow> pystr" where
  "br_expand content = concat (map (\<lambda>c. if c = 10 then u ''<br>'' else [c]) content)"

text \<open>
  The number of token beginnings in \<open>s\<close>, where \<open>b\<close> says whether a token may begin at
  the first character (the text before \<open>s\<close> ended in whitespace, or there is none).
\<close>

definition starts_after :: "bool \<Rightarrow> pystr \<Rightarrow> nat" where
  "starts_after b s =
     length (filter (\<lambda>i. \<not> py_isspace (s ! i) \<and> (if i = 0 then b else py_isspace (s ! (i - 1))))
               [0..<length s])"

definition counters_ok :: "metrics \<Rightarrow> bool" where
  "counters_ok m =
     (total_runs m = successful_runs m + failed_runs m \<and> 0 \<le> total_runs m
      \<and> 0 \<le> successful_runs m \<and> 0 \<le> failed_runs m)"

text \<open>An entry of a batch result names its topic and tells how the run of \<open>env\<close> ended.\<close>

definition entry_reports :: "run_env \<Rightarrow> pystr \<Rightarrow> pydict \<Rightarrow> bool" where
  "entry_reports env topic d =
     (map_of d ''topic'' = Some (PStr topic)
      \<and> map_of d ''success'' = Some (PBool (run_succeeds env)))"

definition counters_le :: "metrics \<Rightarrow> metrics \<Rightarrow> bool" where
  "counters_le m m' =
     (total_runs m \<le> total_runs m' \<and> successful_runs m \<le> successful_runs m'
      \<and> failed_runs m \<le> failed_runs m')"

subsection \<open>Concrete runs\<close>

text \<open>
  The examples are ASCII and never consult the table beyond ASCII; \<open>ascii_db\<close> is a
  table for such uses.
\<close>

definition ascii_db :: unicode_db where
  "ascii_db = \<lparr>isalnum_ext = (\<lambda>c. False), lower_ext = (\<lambda>s. s)\<rparr>"

text \<open>A file system on which every write succeeds.\<close>

definition all_writable :: "pystr \<Rightarrow> bool" where
  "all_writable path = False"

definition t_example :: datetime where
  "t_example =
     \<lparr>year = 2024, month = 1, day = 2, hour = 3, minute = 4, second = 5, microsecond = 0\<rparr>"

definition ok_result :: crew_result where
  "ok_result = \<lparr>result_text = u ''# Post'', n_agents = 4, n_tasks = 4\<rparr>"

definition boom :: exn where
  "boom = \<lparr>message = u ''boom'', trace = u ''Traceback (most recent call last)''\<rparr>"

text \<open>A run that starts at \<open>t_example\<close> and whose driver is done \<open>secs\<close> seconds later.\<close>

definition env_example :: "exn + crew_result \<Rightarrow> nat \<Rightarrow> run_env" where
  "env_example outcome secs =
     \<lparr>now_start = t_example,
      driver = outcome,
      driver_effect = (\<lambda>fs. fs),
      now_end = t_example\<lparr>second := 5 + secs\<rparr>,
      now_metrics = t_example\<lparr>second := 5 + secs\<rparr>,
      now_save = t_example\<lparr>second := 5 + secs\<rparr>,
      unwritable = all_writable\<rparr>"

text \<open>Runs of 10, 5 and 20 seconds, the second of which fails.\<close>

definition scenario_runs :: "(run_env \<times> pystr \<times> int) list" where
  "scenario_runs =
     [(env_example (Inr ok_result) 10, u ''one'', 2000),
      (env_example (Inl boom) 5, u ''two'', 2000),
      (env_example (Inr ok_result) 20, u ''three'', 2000)]"

definition scenario_envs :: "nat \<Rightarrow> run_env" where
  "scenario_envs i = (if i = 1 then env_example (Inl boom) 5 else env_example (Inr ok_result) 10)"

text \<open>
  A successful run whose publishing stage wrote a single file, under a name of its own.
\<close>

definition env_publishing :: run_env where
  "env_publishing =
     (env_example (Inr ok_result) 20)
       \<lparr>driver_effect := (\<lambda>fs. fs(u ''outputs/blog_posts/post.md'' \<mapsto> Text (u ''# Post'')))\<rparr>"

section \<open>The metrics after a run\<close>

lemma run_workflow_returned:
  "driver env = Inr r \<Longrightarrow>
   fst (snd (run_workflow U env topic wc m fs)) =
     m\<lparr>total_runs := total_runs m + 1, successful_runs := successful_runs m + 1,
       avg_duration := (avg_duration m * real_of_int (successful_runs m) + run_duration env)
                        / real_of_int (successful_runs m + 1)\<rparr>"
  by (simp add: run_workflow_def run_duration_def Let_def)

lemma run_workflow_raised:
  "driver env = Inl e \<Longrightarrow>
   fst (snd (run_workflow U env topic wc m fs)) =
     m\<lparr>total_runs := total_runs m + 1, failed_runs := failed_runs m + 1\<rparr>"
  by (simp add: run_workflow_def Let_def)

lemma run_all_successes:
  "successful_runs (fst (snd (run_all U runs m fs)))
     = successful_runs m + int (length (successful_durations runs))"
proof (induction runs arbitrary: m fs)
  case Nil
  then show ?case by (simp add: successful_durations_def)
next
  case (Cons run runs)
  obtain env topic wc where run: "run = (env, topic, wc)" by (cases run)
  obtain r m1 fs1 where rw: "run_workflow U env topic wc m fs = (r, m1, fs1)"
    by (cases "run_workflow U env topic wc m fs")
  have m1: "m1 = fst (snd (run_workflow U env topic wc m fs))" by (simp add: rw)
  have rest: "fst (snd (run_all U (run # runs) m fs)) = fst (snd (run_all U runs m1 fs1))"
    by (simp add: run rw split: prod.splits)
  show ?case
  proof (cases "driver env")
    case (Inl e)
    have "successful_runs m1 = successful_runs m"
      unfolding m1 by (simp add: run_workflow_raised [OF Inl])
    moreover have "successful_durations (run # runs) = successful_durations runs"
      by (simp add: successful_durations_def run run_succeeds_def Inl)
    ultimately show ?thesis by (simp add: rest Cons.IH)
  next
    case (Inr res)
    have "successful_runs m1 = successful_runs m + 1"
      unfolding m1 by (simp add: run_workflow_returned [OF Inr])
    moreover have "successful_durations (run # runs) = run_duration env # successful_durations runs"
      by (simp add: successful_durations_def run run_succeeds_def Inr)
    ultimately show ?thesis by (simp add: rest Cons.IH)
  qed
qed

lemma run_all_average:
  "0 \<le> successful_runs m \<Longrightarrow>
   avg_duration (fst (snd (run_all U runs m fs)))
       * (real_of_int (successful_runs m) + real (length (successful_durations runs)))
     = avg_duration m * real_of_int (successful_runs m) + sum_list (successful_durations runs)"
proof (induction runs arbitrary: m fs)
  case Nil
  then show ?case by (simp add: successful_durations_def)
next
  case (Cons run runs)
  obtain env topic wc where run: "run = (env, topic, wc)" by (cases run)
  obtain r m1 fs1 where rw: "run_workflow U env topic wc m fs = (r, m1, fs1)"
    by (cases "run_workflow U env topic wc m fs")
  have m1: "m1 = fst (snd (run_workflow U env topic wc m fs))" by (simp add: rw)
  have rest: "fst (snd (run_all U (run # runs) m fs)) = fst (snd (run_all U runs m1 fs1))"
    by (simp add: run rw split: prod.splits)
  show ?case
  proof (cases "driver env")
    case (Inl e)
    have same: "successful_runs m1 = successful_runs m" "avg_duration m1 = avg_duration m"
      unfolding m1 by (simp_all add: run_workflow_raised [OF Inl])
    have nonneg: "0 \<le> successful_runs m1" using Cons.prems by (simp add: same)
    have ds: "successful_durations (run # runs) = successful_durations runs"
      by (simp add: successful_durations_def run run_succeeds_def Inl)
    show ?thesis
      using Cons.IH [OF nonneg, of fs1] by (simp add: rest ds same)
  next
    case (Inr res)
    have cnt: "successful_runs m1 = successful_runs m + 1"
      unfolding m1 by (simp add: run_workflow_returned [OF Inr])
    have avg: "avg_duration m1 = (avg_duration m * real_of_int (successful_runs m) + run_duration env)
                        / real_of_int (successful_runs m + 1)"
      unfolding m1 by (simp add: run_workflow_returned [OF Inr])
    have nonneg: "0 \<le> successful_runs m1" using Cons.prems by (simp add: cnt)
    have ds: "successful_durations (run # runs) = run_duration env # successful_durations runs"
      by (simp add: successful_durations_def run run_succeeds_def Inr)
    have pos: "real_of_int (successful_runs m + 1) \<noteq> 0" using Cons.prems by linarith
    have avg1: "avg_duration m1 * real_of_int (successful_runs m1)
        = avg_duration m * real_of_int (successful_runs m) + run_duration env"
      using pos by (simp add: cnt avg)
    have "avg_duration (fst (snd (run_all U runs m1 fs1)))
            * (real_of_int (successful_runs m1) + real (length (successful_durations runs)))
          = avg_duration m1 * real_of_int (successful_runs m1) + sum_list (successful_durations runs)"
      by (rule Cons.IH [OF nonneg])
    then show ?thesis
      by (simp add: rest ds avg1) (simp add: cnt algebra_simps)
  qed
qed

lemma run_all_no_success:
  "successful_durations runs = [] \<Longrightarrow>
   avg_duration (fst (snd (run_all U runs m fs))) = avg_duration m"
proof (induction runs arbitrary: m fs)
  case Nil
  then show ?case by simp
next
  case (Cons run runs)
  obtain env topic wc where run: "run = (env, topic, wc)" by (cases run)
  obtain r m1 fs1 where rw: "run_workflow U env topic wc m fs = (r, m1, fs1)"
    by (cases "run_workflow U env topic wc m fs")
  have m1: "m1 = fst (snd (run_workflow U env topic wc m fs))" by (simp add: rw)
  have rest: "fst (snd (run_all U (run # runs) m fs)) = fst (snd (run_all U runs m1 fs1))"
    by (simp add: run rw split: prod.splits)
  from Cons.prems obtain e where raised: "driver env = Inl e"
    by (cases "driver env") (simp_all add: successful_durations_def run run_succeeds_def)
  from Cons.prems have none: "successful_durations runs = []"
    by (simp add: successful_durations_def run run_succeeds_def raised)
  have "avg_duration m1 = avg_duration m"
    unfolding m1 by (simp add: run_workflow_raised [OF raised])
  then show ?case using Cons.IH [OF none, of m1 fs1] by (simp add: rest)
qed

text \<open>
  C1. Over any sequence of runs on a fresh orchestrator, the average duration the metrics
  keep is the mean of the durations of the successful runs, whatever failed runs lie
  between them, and it is the initial 0 while no run has succeeded. A failed run leaves
  the average as it was, from any state.
\<close>

theorem running_average_exact:
  "(successful_durations runs \<noteq> [] \<longrightarrow>
      avg_duration (fst (snd (run_all U runs init_metrics fs))) = mean (successful_durations runs))
   \<and> (successful_durations runs = [] \<longrightarrow>
      avg_duration (fst (snd (run_all U runs init_metrics fs))) = 0)
   \<and> (\<not> run_succeeds env \<longrightarrow>
      avg_duration (fst (snd (run_workflow U env topic word_count m fs0))) = avg_duration m)"
proof -
  let ?m = "fst (snd (run_all U runs init_metrics fs))"
  let ?ds = "successful_durations runs"
  have init: "0 \<le> successful_runs init_metrics" by (simp add: init_metrics_def)
  have s0: "successful_runs init_metrics = 0" and a0: "avg_duration init_metrics = 0"
    by (simp_all add: init_metrics_def)
  have s: "avg_duration ?m * real (length ?ds) = sum_list ?ds"
    using run_all_average [OF init, of U runs fs] by (simp add: s0 a0)
  have a: "?ds \<noteq> [] \<longrightarrow> avg_duration ?m = mean ?ds"
  proof
    assume ne: "?ds \<noteq> []"
    then have pos: "real (length ?ds) \<noteq> 0" by simp
    show "avg_duration ?m = mean ?ds"
      using pos s by (simp add: mean_def field_simps)
  qed
  have b: "?ds = [] \<longrightarrow> avg_duration ?m = 0"
    using run_all_no_success [of runs U init_metrics fs] by (simp add: a0)
  have c: "\<not> run_succeeds env \<longrightarrow>
      avg_duration (fst (snd (run_workflow U env topic word_count m fs0))) = avg_duration m"
    by (cases "driver env") (simp_all add: run_succeeds_def run_workflow_raised)
  show ?thesis using a b c by blast
qed

lemma scenario_ds: "successful_durations scenario_runs = [10, 20]"
  by (simp add: successful_durations_def scenario_runs_def run_succeeds_def env_example_def
      run_duration_def total_seconds_def dt_sub_def toordinal_def t_example_def)

theorem running_average_exact_witness:
  "successful_durations scenario_runs \<noteq> []
   \<and> avg_duration (fst (snd (run_all ascii_db scenario_runs init_metrics Map.empty))) = 15
   \<and> \<not> run_succeeds (env_example (Inl boom) 5)
   \<and> avg_duration (fst (snd (run_workflow ascii_db (env_example (Inl boom) 5) (u ''two'') 2000
        (init_metrics\<lparr>avg_duration := 10\<rparr>) Map.empty))) = 10"
  using running_average_exact [of scenario_runs ascii_db Map.empty "env_example (Inl boom) 5"
      "u ''two''" 2000 "init_metrics\<lparr>avg_duration := 10\<rparr>" Map.empty]
  by (simp add: scenario_ds mean_def run_succeeds_def env_example_def)

section \<open>The counters\<close>

lemma run_workflow_counters_ok:
  "counters_ok m \<Longrightarrow> counters_ok (fst (snd (run_workflow U env topic wc m fs)))"
  by (cases "driver env")
     (simp_all add: counters_ok_def run_workflow_raised run_workflow_returned)

lemma run_workflow_counters_le:
  "counters_le m (fst (snd (run_workflow U env topic wc m fs)))"
  by (cases "driver env")
     (simp_all add: counters_le_def run_workflow_raised run_workflow_returned)

lemma counters_le_trans: "counters_le a b \<Longrightarrow> counters_le b c \<Longrightarrow> counters_le a c"
  by (auto simp: counters_le_def)

lemma batch_loop_step:
  "\<exists>acc'. batch_loop U E i (topic # rest) wc acc m fs =
      batch_loop U E (Suc i) rest wc acc'
        (fst (snd (run_workflow U (E i) topic wc m fs)))
        (snd (snd (run_workflow U (E i) topic wc m fs)))"
  by (cases "run_workflow U (E i) topic wc m fs")
     (auto split: sum.splits option.splits)

lemma batch_loop_counters_ok:
  "counters_ok m \<Longrightarrow> counters_ok (fst (snd (batch_loop U E i topics wc acc m fs)))"
proof (induction topics arbitrary: i acc m fs)
  case Nil
  then show ?case by simp
next
  case (Cons topic rest)
  obtain acc' where "batch_loop U E i (topic # rest) wc acc m fs =
      batch_loop U E (Suc i) rest wc acc'
        (fst (snd (run_workflow U (E i) topic wc m fs)))
        (snd (snd (run_workflow U (E i) topic wc m fs)))"
    using batch_loop_step by blast
  then show ?case
    using Cons.IH [OF run_workflow_counters_ok [OF Cons.prems]] by simp
qed

lemma batch_loop_counters_le:
  "counters_le m (fst (snd (batch_loop U E i topics wc acc m fs)))"
proof (induction topics arbitrary: i acc m fs)
  case Nil
  then show ?case by (simp add: counters_le_def)
next
  case (Cons topic rest)
  obtain acc' where "batch_loop U E i (topic # rest) wc acc m fs =
      batch_loop U E (Suc i) rest wc acc'
        (fst (snd (run_workflow U (E i) topic wc m fs)))
        (snd (snd (run_workflow U (E i) topic wc m fs)))"
    using batch_loop_step by blast
  then show ?case
    using counters_le_trans [OF run_workflow_counters_le Cons.IH] by simp
qed

lemma exec_counters_ok: "counters_ok (fst s) \<Longrightarrow> counters_ok (fst (exec U operation s))"
proof (cases s)
  case (Pair m fs)
  assume "counters_ok (fst s)"
  then have ok: "counters_ok m" by (simp add: Pair)
  show ?thesis
    by (cases operation)
       (simp_all add: Pair ok run_workflow_counters_ok batch_process_def batch_loop_counters_ok)
qed

lemma exec_counters_le: "counters_le m (fst (exec U operation (m, fs)))"
  by (cases operation)
     (simp_all add: run_workflow_counters_le batch_process_def batch_loop_counters_le,
      simp_all add: counters_le_def)

lemma reachable_counters_ok: "reachable U s \<Longrightarrow> counters_ok (fst s)"
proof (induction rule: reachable.induct)
  case (fresh fs)
  show ?case by (simp add: counters_ok_def init_metrics_def)
next
  case (step s operation)
  then show ?case by (simp add: exec_counters_ok)
qed

text \<open>
  C3. In every state an orchestrator can reach by its operations, that is, after every
  run and every other call that has returned, the total number of runs is the sum of the
  successful and the failed ones and none of the three is negative; and no operation,
  from such a state, makes any of the three smaller.
\<close>

theorem counters_consistent_and_monotone:
  "reachable U (m, fs) \<Longrightarrow>
     total_runs m = successful_runs m + failed_runs m
     \<and> 0 \<le> total_runs m \<and> 0 \<le> successful_runs m \<and> 0 \<le> failed_runs m
     \<and> total_runs m \<le> total_runs (fst (exec U operation (m, fs)))
     \<and> successful_runs m \<le> successful_runs (fst (exec U operation (m, fs)))
     \<and> failed_runs m \<le> failed_runs (fst (exec U operation (m, fs)))"
  using reachable_counters_ok [of U "(m, fs)"] exec_counters_le [of m U operation fs]
  by (simp add: counters_ok_def counters_le_def)

theorem counters_consistent_and_monotone_witness:
  "reachable ascii_db (exec ascii_db (RunWorkflow (env_example (Inl boom) 5) (u ''two'') 2000)
       (init_metrics, Map.empty))
   \<and> total_runs (fst (exec ascii_db (RunWorkflow (env_example (Inl boom) 5) (u ''two'') 2000)
       (init_metrics, Map.empty))) = 1
   \<and> failed_runs (fst (exec ascii_db (RunWorkflow (env_example (Inl boom) 5) (u ''two'') 2000)
       (init_metrics, Map.empty))) = 1
   \<and> successful_runs (fst (exec ascii_db (RunWorkflow (env_example (Inl boom) 5) (u ''two'') 2000)
       (init_metrics, Map.empty))) = 0"
proof -
  let ?s = "exec ascii_db (RunWorkflow (env_example (Inl boom) 5) (u ''two'') 2000)
       (init_metrics, Map.empty)"
  have r: "reachable ascii_db ?s"
    by (rule reachable.step, rule reachable.fresh)
  have d: "driver (env_example (Inl boom) 5) = Inl boom" by (simp add: env_example_def)
  have f: "failed_runs (fst ?s) = 1"
    by (simp add: run_workflow_raised [OF d] init_metrics_def)
  have t: "total_runs (fst ?s) = 1"
    by (simp add: run_workflow_raised [OF d] init_metrics_def)
  have r': "reachable ascii_db (fst ?s, snd ?s)" using r by simp
  show ?thesis
    using counters_consistent_and_monotone [OF r', of "GetPerformanceMetrics t_example"] r f t
    by simp
qed

section \<open>The snapshot of the metrics\<close>

lemma scenario_metrics:
  "fst (snd (run_all U scenario_runs init_metrics fs))
     = \<lparr>total_runs = 3, successful_runs = 2, failed_runs = 1, total_cost = 0, avg_duration = 15\<rparr>"
proof -
  have d1: "driver (env_example (Inr ok_result) 10) = Inr ok_result"
    and d2: "driver (env_example (Inl boom) 5) = Inl boom"
    and d3: "driver (env_example (Inr ok_result) 20) = Inr ok_result"
    by (simp_all add: env_example_def)
  have t1: "run_duration (env_example (Inr ok_result) 10) = 10"
    and t3: "run_duration (env_example (Inr ok_result) 20) = 20"
    by (simp_all add: env_example_def run_duration_def total_seconds_def dt_sub_def
        toordinal_def t_example_def)
  obtain r1 m1 fs1 where s1: "run_workflow U (env_example (Inr ok_result) 10) (u ''one'') 2000
      init_metrics fs = (r1, m1, fs1)" by (rule prod_cases3)
  obtain r2 m2 fs2 where s2: "run_workflow U (env_example (Inl boom) 5) (u ''two'') 2000
      m1 fs1 = (r2, m2, fs2)" by (rule prod_cases3)
  obtain r3 m3 fs3 where s3: "run_workflow U (env_example (Inr ok_result) 20) (u ''three'') 2000
      m2 fs2 = (r3, m3, fs3)" by (rule prod_cases3)
  have m1: "m1 = \<lparr>total_runs = 1, successful_runs = 1, failed_runs = 0, total_cost = 0,
      avg_duration = 10\<rparr>"
    using run_workflow_returned [OF d1, of U "u ''one''" 2000 init_metrics fs] s1
    by (simp add: t1 init_metrics_def)
  have m2: "m2 = \<lparr>total_runs = 2, successful_runs = 1, failed_runs = 1, total_cost = 0,
      avg_duration = 10\<rparr>"
    using run_workflow_raised [OF d2, of U "u ''two''" 2000 m1 fs1] s2
    by (simp add: m1)
  have m3: "m3 = \<lparr>total_runs = 3, successful_runs = 2, failed_runs = 1, total_cost = 0,
      avg_duration = 15\<rparr>"
    using run_workflow_returned [OF d3, of U "u ''three''" 2000 m2 fs2] s3
    by (simp add: t3 m2)
  have "fst (snd (run_all U scenario_runs init_metrics fs)) = m3"
    using s1 s2 s3 by (simp add: scenario_runs_def)
  then show ?thesis by (simp only: m3)
qed

text \<open>
  C4. Reading the performance metrics leaves the state of the orchestrator as it is. The
  success rate it reports is the share of successful runs in percent when there has been
  a run, and the integer 0 when there has been none. The estimated cost per run is the
  constant 15000 / 1000 * 0.002 = 0.03, whatever the counters hold.
\<close>

theorem performance_metrics_snapshot:
  "exec U (GetPerformanceMetrics now) (m, fs) = (m, fs)
   \<and> (0 < total_runs m \<longrightarrow>
        map_of (get_performance_metrics now m) ''success_rate''
          = Some (PFloat (real_of_int (successful_runs m) / real_of_int (total_runs m) * 100)))
   \<and> (total_runs m = 0 \<longrightarrow>
        map_of (get_performance_metrics now m) ''success_rate'' = Some (PInt 0))
   \<and> map_of (get_performance_metrics now m) ''estimated_cost_per_run'' = Some (PFloat 0.03)
   \<and> estimate_cost = 15000 / 1000 * 0.002"
  by (simp add: get_performance_metrics_def estimate_cost_def)

theorem performance_metrics_snapshot_witness:
  "map_of (get_performance_metrics t_example
       (fst (snd (run_all ascii_db scenario_runs init_metrics Map.empty)))) ''success_rate''
     = Some (PFloat (200 / 3))
   \<and> map_of (get_performance_metrics t_example init_metrics) ''success_rate'' = Some (PInt 0)"
  using performance_metrics_snapshot [of ascii_db t_example
      "fst (snd (run_all ascii_db scenario_runs init_metrics Map.empty))" Map.empty]
    performance_metrics_snapshot [of ascii_db t_example init_metrics Map.empty]
  by (simp add: scenario_metrics) (simp add: init_metrics_def)

section \<open>The record a run returns\<close>

lemma run_workflow_result_returned:
  "driver env = Inr r \<Longrightarrow>
   fst (run_workflow U env topic wc m fs) =
     Inr [(''topic'', PStr topic),
          (''word_count'', PInt wc),
          (''start_time'', PStr (isoformat (now_start env))),
          (''end_time'', PStr (isoformat (now_end env))),
          (''duration'', PStr (str_timedelta (dt_sub (now_end env) (now_start env)))),
          (''duration_seconds'', PFloat (run_duration env)),
          (''final_output'', PStr (result_text r)),
          (''agents_used'', PInt (n_agents r)),
          (''tasks_completed'', PInt (n_tasks r)),
          (''success'', PBool True),
          (''output_files'', PList (map PStr (get_output_files U topic (now_start env)))),
          (''metrics'', PDict (get_performance_metrics (now_metrics env)
             (fst (snd (run_workflow U env topic wc m fs)))))]"
  by (simp add: run_workflow_def run_duration_def Let_def)

lemma run_workflow_result_raised:
  "driver env = Inl e \<Longrightarrow>
   fst (run_workflow U env topic wc m fs) =
     Inr [(''topic'', PStr topic),
          (''word_count'', PInt wc),
          (''start_time'', PStr (isoformat (now_start env))),
          (''end_time'', PStr (isoformat (now_end env))),
          (''duration'', PStr (str_timedelta (dt_sub (now_end env) (now_start env)))),
          (''error'', PStr (message e)),
          (''traceback'', PStr (trace e)),
          (''success'', PBool False)]"
  by (simp add: run_workflow_def Let_def)

text \<open>
  C5. Whatever the topic, the word count and the state, and whether or not the report of
  the run can be written to its file, a call of \<^verbatim>\<open>run_workflow\<close> returns a dictionary
  and lets no exception through. When the driver raised, the dictionary has \<open>success\<close>
  false and holds the message and the traceback of the exception; when the driver
  returned, it has \<open>success\<close> true.
\<close>

theorem run_workflow_returns_record:
  "\<exists>d. fst (run_workflow U env topic word_count m fs) = Inr d
     \<and> (case driver env of
          Inl e \<Rightarrow> map_of d ''success'' = Some (PBool False)
                   \<and> map_of d ''error'' = Some (PStr (message e))
                   \<and> map_of d ''traceback'' = Some (PStr (trace e))
        | Inr r \<Rightarrow> map_of d ''success'' = Some (PBool True))"
proof (cases "driver env")
  case (Inl e)
  show ?thesis by (simp add: Inl run_workflow_result_raised [OF Inl])
next
  case (Inr r)
  show ?thesis by (simp add: Inr run_workflow_result_returned [OF Inr])
qed

theorem run_workflow_returns_record_witness:
  "\<exists>d. fst (run_workflow ascii_db (env_example (Inl boom) 5) (u ''two'') 2000 init_metrics
            Map.empty) = Inr d
     \<and> map_of d ''success'' = Some (PBool False)
     \<and> map_of d ''error'' = Some (PStr (u ''boom''))
     \<and> map_of d ''traceback'' = Some (PStr (u ''Traceback (most recent call last)''))"
  using run_workflow_returns_record [of ascii_db "env_example (Inl boom) 5" "u ''two''" 2000
      init_metrics Map.empty]
  by (simp add: env_example_def boom_def)

text \<open>
  C6. A record returned by \<^verbatim>\<open>run_workflow\<close> has one of two shapes, told apart by
  \<open>success\<close>: with \<open>success\<close> true it has the keys \<open>final_output\<close> and
  \<open>output_files\<close> and neither \<open>error\<close> nor \<open>traceback\<close>; with \<open>success\<close> false
  it has \<open>error\<close> and \<open>traceback\<close> and neither \<open>final_output\<close> nor
  \<open>output_files\<close>.
\<close>

theorem run_record_groups:
  "fst (run_workflow U env topic word_count m fs) = Inr d \<Longrightarrow>
     (map_of d ''success'' = Some (PBool True)
        \<and> has_key d ''final_output'' \<and> has_key d ''output_files''
        \<and> \<not> has_key d ''error'' \<and> \<not> has_key d ''traceback'')
     \<or> (map_of d ''success'' = Some (PBool False)
        \<and> has_key d ''error'' \<and> has_key d ''traceback''
        \<and> \<not> has_key d ''final_output'' \<and> \<not> has_key d ''output_files'')"
proof (cases "driver env")
  case (Inl e)
  assume "fst (run_workflow U env topic word_count m fs) = Inr d"
  then show ?thesis by (auto simp add: has_key_def run_workflow_result_raised [OF Inl])
next
  case (Inr r)
  assume "fst (run_workflow U env topic word_count m fs) = Inr d"
  then show ?thesis by (auto simp add: has_key_def run_workflow_result_returned [OF Inr])
qed

theorem run_record_groups_witness:
  "\<exists>d. fst (run_workflow ascii_db (env_example (Inr ok_result) 10) (u ''one'') 2000 init_metrics
            Map.empty) = Inr d
     \<and> map_of d ''success'' = Some (PBool True)
     \<and> has_key d ''final_output'' \<and> has_key d ''output_files''
     \<and> \<not> has_key d ''error'' \<and> \<not> has_key d ''traceback''"
proof -
  have dr: "driver (env_example (Inr ok_result) 10) = Inr ok_result"
    by (simp add: env_example_def)
  obtain d where d: "fst (run_workflow ascii_db (env_example (Inr ok_result) 10) (u ''one'') 2000
      init_metrics Map.empty) = Inr d"
    and t: "map_of d ''success'' = Some (PBool True)"
    by (simp add: run_workflow_result_returned [OF dr])
  show ?thesis
    using run_record_groups [OF d] d t by auto
qed
text \<open>
  C10. The \<open>output_files\<close> of a successful run depend on the topic and the start time
  only: two successful runs of one topic that start at the same time list the same
  files, whatever their drivers did to the file system, whatever the file system, the
  metrics and the word count were. The list is the four paths under
  \<^verbatim>\<open>outputs/blog_posts/\<close>, with the endings \<^verbatim>\<open>.md\<close>, \<^verbatim>\<open>.html\<close>, \<^verbatim>\<open>.txt\<close> and
  \<^verbatim>\<open>_metadata.json\<close> in this order.
\<close>

theorem output_files_from_topic_and_start:
  "driver env = Inr r \<Longrightarrow> driver env' = Inr r' \<Longrightarrow> now_start env' = now_start env \<Longrightarrow>
   (\<exists>d d'. fst (run_workflow U env topic word_count m fs) = Inr d
      \<and> fst (run_workflow U env' topic word_count' m' fs') = Inr d'
      \<and> map_of d ''output_files'' = map_of d' ''output_files''
      \<and> map_of d ''output_files'' =
          Some (PList (map PStr
            [u ''outputs/blog_posts/'' @ safe_topic U topic @ u ''_''
               @ strftime_compact (now_start env) @ u ''.md'',
             u ''outputs/blog_posts/'' @ safe_topic U topic @ u ''_''
               @ strftime_compact (now_start env) @ u ''.html'',
             u ''outputs/blog_posts/'' @ safe_topic U topic @ u ''_''
               @ strftime_compact (now_start env) @ u ''.txt'',
             u ''outputs/blog_posts/'' @ safe_topic U topic @ u ''_''
               @ strftime_compact (now_start env) @ u ''_metadata.json''])))"
proof -
  assume a: "driver env = Inr r" and b: "driver env' = Inr r'" and c: "now_start env' = now_start env"
  show ?thesis
    by (simp add: run_workflow_result_returned [OF a] run_workflow_result_returned [OF b] c
        get_output_files_def file_stem_def)
qed


lemma example_names:
  "safe_topic U (u ''one'') = u ''one''"
  "strftime_compact t_example = u ''20240102_030405''"
  by (simp_all add: safe_topic_def py_lower_def py_replace_def py_rstrip_def py_isalnum_def
      py_isspace_def ascii_lower_def strftime_compact_def t_example_def zpad_def decimal.simps)

theorem output_files_from_topic_and_start_witness:
  "\<exists>d d'. fst (run_workflow ascii_db (env_example (Inr ok_result) 10) (u ''one'') 2000
               init_metrics Map.empty) = Inr d
     \<and> fst (run_workflow ascii_db env_publishing (u ''one'') 1500 init_metrics Map.empty) = Inr d'
     \<and> map_of d ''output_files'' = map_of d' ''output_files''
     \<and> map_of d ''output_files'' =
         Some (PList (map PStr
           [u ''outputs/blog_posts/one_20240102_030405.md'',
            u ''outputs/blog_posts/one_20240102_030405.html'',
            u ''outputs/blog_posts/one_20240102_030405.txt'',
            u ''outputs/blog_posts/one_20240102_030405_metadata.json'']))"
proof -
  have a: "driver (env_example (Inr ok_result) 10) = Inr ok_result"
    and b: "driver env_publishing = Inr ok_result"
    and c: "now_start env_publishing = now_start (env_example (Inr ok_result) 10)"
    and t: "now_start (env_example (Inr ok_result) 10) = t_example"
    by (simp_all add: env_publishing_def env_example_def)
  show ?thesis
    using output_files_from_topic_and_start [OF a b c, of ascii_db "u ''one''" 2000 init_metrics
        Map.empty 1500 init_metrics Map.empty]
    by (simp add: t example_names [simplified])
qed


section \<open>The results of a batch\<close>

lemma run_workflow_entry:
  "\<exists>d. fst (run_workflow U env topic wc m fs) = Inr d \<and> entry_reports env topic d"
proof (cases "driver env")
  case (Inl e)
  show ?thesis
    by (simp add: run_workflow_result_raised [OF Inl] entry_reports_def run_succeeds_def Inl)
next
  case (Inr r)
  show ?thesis
    by (simp add: run_workflow_result_returned [OF Inr] entry_reports_def run_succeeds_def Inr)
qed

lemma batch_loop_results:
  "\<exists>ds. fst (batch_loop U E i topics wc acc m fs) = acc @ ds
        \<and> length ds = length topics
        \<and> (\<forall>j<length topics. entry_reports (E (i + j)) (topics ! j) (ds ! j))"
proof (induction topics arbitrary: i acc m fs)
  case Nil
  show ?case by simp
next
  case (Cons topic rest)
  obtain d where d: "fst (run_workflow U (E i) topic wc m fs) = Inr d"
    and rep: "entry_reports (E i) topic d"
    using run_workflow_entry by blast
  obtain m1 fs1 where rw: "run_workflow U (E i) topic wc m fs = (Inr d, m1, fs1)"
    using d by (cases "run_workflow U (E i) topic wc m fs") simp
  have key: "map_of d ''success'' = Some (PBool (run_succeeds (E i)))"
    using rep by (simp add: entry_reports_def)
  have unfold: "batch_loop U E i (topic # rest) wc acc m fs
      = batch_loop U E (Suc i) rest wc (acc @ [d]) m1 fs1"
    by (simp add: rw key)
  obtain ds where ds: "fst (batch_loop U E (Suc i) rest wc (acc @ [d]) m1 fs1) = (acc @ [d]) @ ds"
    and len: "length ds = length rest"
    and each: "\<forall>j<length rest. entry_reports (E (Suc i + j)) (rest ! j) (ds ! j)"
    using Cons.IH by blast
  have "\<forall>j<length (topic # rest). entry_reports (E (i + j)) ((topic # rest) ! j) ((d # ds) ! j)"
  proof (intro allI impI)
    fix j assume j: "j < length (topic # rest)"
    show "entry_reports (E (i + j)) ((topic # rest) ! j) ((d # ds) ! j)"
    proof (cases j)
      case 0
      then show ?thesis using rep by simp
    next
      case (Suc k)
      then have "k < length rest" using j by simp
      then show ?thesis using each Suc by simp
    qed
  qed
  then show ?case
    using ds len unfold by (intro exI [of _ "d # ds"]) simp
qed

text \<open>
  C7. \<^verbatim>\<open>batch_process\<close> returns one entry for every topic, in the order of the topics.
  The entry at an index names the topic at that index, and its \<open>success\<close> tells how
  the driver of that run ended, whatever happened in the other runs: a driver that
  raises makes its own entry a failure and does not end the batch.
\<close>

theorem batch_process_isolates_failures:
  "length (fst (batch_process U E topics word_count m fs)) = length topics
   \<and> (\<forall>i<length topics.
        map_of (fst (batch_process U E topics word_count m fs) ! i) ''topic''
          = Some (PStr (topics ! i))
        \<and> map_of (fst (batch_process U E topics word_count m fs) ! i) ''success''
          = Some (PBool (run_succeeds (E i))))"
proof -
  obtain ds where ds: "fst (batch_process U E topics word_count m fs) = ds"
    and len: "length ds = length topics"
    and each: "\<forall>j<length topics. entry_reports (E j) (topics ! j) (ds ! j)"
    using batch_loop_results [of U E 0 topics word_count "[]" m fs]
    by (auto simp add: batch_process_def)
  show ?thesis
    using len each by (simp add: ds entry_reports_def)
qed

theorem batch_process_isolates_failures_witness:
  "length (fst (batch_process ascii_db scenario_envs [u ''one'', u ''two'', u ''three''] 2000
       init_metrics Map.empty)) = 3
   \<and> map_of (fst (batch_process ascii_db scenario_envs [u ''one'', u ''two'', u ''three''] 2000
       init_metrics Map.empty) ! 0) ''success'' = Some (PBool True)
   \<and> map_of (fst (batch_process ascii_db scenario_envs [u ''one'', u ''two'', u ''three''] 2000
       init_metrics Map.empty) ! 1) ''success'' = Some (PBool False)
   \<and> map_of (fst (batch_process ascii_db scenario_envs [u ''one'', u ''two'', u ''three''] 2000
       init_metrics Map.empty) ! 2) ''success'' = Some (PBool True)"
proof -
  let ?r = "fst (batch_process ascii_db scenario_envs [u ''one'', u ''two'', u ''three''] 2000
       init_metrics Map.empty)"
  have all: "length ?r = length [u ''one'', u ''two'', u ''three'']
     \<and> (\<forall>i<length [u ''one'', u ''two'', u ''three''].
        map_of (?r ! i) ''topic'' = Some (PStr ([u ''one'', u ''two'', u ''three''] ! i))
        \<and> map_of (?r ! i) ''success'' = Some (PBool (run_succeeds (scenario_envs i))))"
    by (rule batch_process_isolates_failures)
  have s: "run_succeeds (scenario_envs 0)" "\<not> run_succeeds (scenario_envs 1)"
    "run_succeeds (scenario_envs 2)"
    by (simp_all add: scenario_envs_def run_succeeds_def env_example_def)
  have "map_of (?r ! 0) ''success'' = Some (PBool (run_succeeds (scenario_envs 0)))"
    "map_of (?r ! 1) ''success'' = Some (PBool (run_succeeds (scenario_envs 1)))"
    "map_of (?r ! 2) ''success'' = Some (PBool (run_succeeds (scenario_envs 2)))"
    using all by simp_all
  then show ?thesis using all s by simp
qed


section \<open>The names derived from a topic\<close>

lemma safe_topic_ai: "safe_topic U (u ''AI & Society!!'') = u ''ai__society''"
  by (simp add: safe_topic_def py_lower_def py_replace_def py_rstrip_def py_isalnum_def
      py_isspace_def ascii_lower_def)

lemma safe_topic_blank: "safe_topic U (u ''   '') = []"
  by (simp add: safe_topic_def py_lower_def py_replace_def py_rstrip_def py_isalnum_def
      py_isspace_def ascii_lower_def)

lemma safe_topic_edge: "safe_topic U (u ''Edge/Case?'') = u ''edgecase''"
  by (simp add: safe_topic_def py_lower_def py_replace_def py_rstrip_def py_isalnum_def
      py_isspace_def ascii_lower_def)

lemma strftime_example: "strftime_compact t_example = u ''20240102_030405''"
  by (simp add: strftime_compact_def t_example_def zpad_def decimal.simps)

lemma file_stem_edge:
  "file_stem U (u ''Edge/Case?'') t_example = u ''outputs/blog_posts/edgecase_20240102_030405''"
  by (simp only: file_stem_def safe_topic_edge strftime_example) simp

lemmas slug_values =
  safe_topic_ai [simplified] safe_topic_blank [simplified] file_stem_edge [simplified]

text \<open>
  C2, as the specification has it, does not hold: the two characters around \<open>&\<close> are
  spaces and both become underscores, and the slash of \<open>Edge/Case?\<close> is dropped, not
  replaced.
\<close>

theorem slug_examples_counterexample:
  "safe_topic ascii_db (u ''AI & Society!!'') \<noteq> u ''ai_society''
   \<and> map snd (fst (save_output_files ascii_db all_writable (u ''Edge/Case?'') (u ''text'')
        t_example Map.empty))
      \<noteq> [u ''outputs/blog_posts/edge_case_20240102_030405.md'',
          u ''outputs/blog_posts/edge_case_20240102_030405.txt'',
          u ''outputs/blog_posts/edge_case_20240102_030405.html'',
          u ''outputs/blog_posts/edge_case_20240102_030405_metadata.json'']"
  by (simp add: slug_values save_output_files_def write_file_def all_writable_def Let_def)

text \<open>
  C2, amended. The topic \<open>AI & Society!!\<close> gives \<open>ai__society\<close>, with two underscores;
  a topic of three spaces gives the empty name; and the artifacts of the topic
  \<open>Edge/Case?\<close> at 2024-01-02T03:04:05 are named with the stem
  \<open>edgecase_20240102_030405\<close>, by \<^verbatim>\<open>save_output_files\<close> when every write succeeds
  and by \<^verbatim>\<open>_get_output_files\<close>.
\<close>

theorem slug_examples:
  "safe_topic U (u ''AI & Society!!'') = u ''ai__society''
   \<and> safe_topic U (u ''   '') = u ''''
   \<and> map snd (fst (save_output_files U all_writable (u ''Edge/Case?'') content t_example fs))
      = [u ''outputs/blog_posts/edgecase_20240102_030405.md'',
         u ''outputs/blog_posts/edgecase_20240102_030405.txt'',
         u ''outputs/blog_posts/edgecase_20240102_030405.html'',
         u ''outputs/blog_posts/edgecase_20240102_030405_metadata.json'']
   \<and> get_output_files U (u ''Edge/Case?'') t_example
      = [u ''outputs/blog_posts/edgecase_20240102_030405.md'',
         u ''outputs/blog_posts/edgecase_20240102_030405.html'',
         u ''outputs/blog_posts/edgecase_20240102_030405.txt'',
         u ''outputs/blog_posts/edgecase_20240102_030405_metadata.json'']"
  by (simp add: slug_values save_output_files_def write_file_def all_writable_def Let_def
      get_output_files_def)

theorem slug_examples_witness:
  "safe_topic ascii_db (u ''AI & Society!!'') = u ''ai__society''
   \<and> safe_topic ascii_db (u ''   '') = []
   \<and> map snd (fst (save_output_files ascii_db all_writable (u ''Edge/Case?'') (u ''text'')
        t_example Map.empty))
      = [u ''outputs/blog_posts/edgecase_20240102_030405.md'',
         u ''outputs/blog_posts/edgecase_20240102_030405.txt'',
         u ''outputs/blog_posts/edgecase_20240102_030405.html'',
         u ''outputs/blog_posts/edgecase_20240102_030405_metadata.json'']"
  using slug_examples [of ascii_db "u ''text''" Map.empty] by simp


section \<open>Splitting and replacing\<close>

lemma replace_scan_single:
  "replace_scan [c] new s = concat (map (\<lambda>x. if x = c then new else [x]) s)"
  by (induction s) simp_all

lemma newline_replace: "py_replace (u ''\<newline>'') (u ''<br>'') content = br_expand content"
  by (simp add: py_replace_def br_expand_def replace_scan_single cong: if_cong)

lemma starts_after_Nil: "starts_after b [] = 0"
  by (simp add: starts_after_def)

lemma starts_after_Cons:
  "starts_after b (c # cs) =
     (if \<not> py_isspace c \<and> b then 1 else 0) + starts_after (py_isspace c) cs"
proof -
  let ?P = "\<lambda>i. \<not> py_isspace ((c # cs) ! i)
                \<and> (if i = 0 then b else py_isspace ((c # cs) ! (i - 1)))"
  let ?Q = "\<lambda>i. \<not> py_isspace (cs ! i)
                \<and> (if i = 0 then py_isspace c else py_isspace (cs ! (i - 1)))"
  have upt: "[0..<length (c # cs)] = 0 # map Suc [0..<length cs]"
    by (simp add: upt_conv_Cons map_Suc_upt del: upt_Suc)
  have pointwise: "(?P \<circ> Suc) i = ?Q i" for i
    by (cases i) simp_all
  have "filter ?P (map Suc [0..<length cs]) = map Suc (filter (?P \<circ> Suc) [0..<length cs])"
    by (rule filter_map)
  also have "filter (?P \<circ> Suc) [0..<length cs] = filter ?Q [0..<length cs]"
    using pointwise by (intro filter_cong refl) 
  finally have tail: "length (filter ?P (map Suc [0..<length cs])) = starts_after (py_isspace c) cs"
    by (simp only: starts_after_def length_map)
  have "starts_after b (c # cs) = length (filter ?P (0 # map Suc [0..<length cs]))"
    by (simp only: starts_after_def upt)
  also have "\<dots> = (if ?P 0 then 1 else 0) + length (filter ?P (map Suc [0..<length cs]))"
    by (simp only: filter.simps split: if_split) simp
  also have "?P 0 \<longleftrightarrow> \<not> py_isspace c \<and> b" by simp
  finally show ?thesis by (simp only: tail)
qed

lemma split_ws_count:
  "length (split_ws cur s) = (if cur = [] then 0 else 1) + starts_after (cur = []) s"
proof (induction s arbitrary: cur)
  case Nil
  show ?case by (simp add: starts_after_Nil)
next
  case (Cons c cs)
  show ?case
    by (cases "py_isspace c") (simp_all add: Cons.IH starts_after_Cons)
qed

lemma py_split_count: "length (py_split s) = token_count s"
proof -
  have "filter (\<lambda>i. \<not> py_isspace (s ! i) \<and> (if i = 0 then True else py_isspace (s ! (i - 1))))
          [0..<length s]
      = filter (\<lambda>i. \<not> py_isspace (s ! i) \<and> (i = 0 \<or> py_isspace (s ! (i - 1)))) [0..<length s]"
    by (rule filter_cong) auto
  then have "starts_after True s = token_count s"
    by (simp only: starts_after_def token_count_def)
  then show ?thesis
    by (simp add: py_split_def split_ws_count)
qed

lemma split_ws_tokens:
  "\<forall>t \<in> set (split_ws cur s). t \<noteq> [] \<and> (list_all (\<lambda>c. \<not> py_isspace c) cur \<longrightarrow> list_all (\<lambda>c. \<not> py_isspace c) t)"
  by (induction s arbitrary: cur) auto

lemma split_ws_concat:
  "concat (split_ws cur s) = cur @ filter (\<lambda>c. \<not> py_isspace c) s"
  by (induction s arbitrary: cur) auto

section \<open>The artifacts on the file system\<close>

lemma metadata_word_count:
  "map_of (metadata_of topic content timestamp files) ''word_count''
     = Some (PInt (int (length (py_split content))))"
  by (simp add: metadata_of_def)

lemma metadata_character_count:
  "map_of (metadata_of topic content timestamp files) ''character_count''
     = Some (PInt (int (length content)))"
  by (simp add: metadata_of_def)

lemma save_output_files_metadata:
  "save_output_files U W topic content timestamp fs = (files_saved, fs') \<Longrightarrow>
   map_of files_saved ''metadata'' = Some path \<Longrightarrow>
   path = file_stem U topic timestamp @ u ''_metadata.json''
   \<and> fs' path = Some (Json (PDict (metadata_of topic content timestamp
        [(''markdown'', file_stem U topic timestamp @ u ''.md''),
         (''text'', file_stem U topic timestamp @ u ''.txt''),
         (''html'', file_stem U topic timestamp @ u ''.html'')])))"
  by (auto simp add: save_output_files_def write_file_def Let_def split: if_splits)

text \<open>
  C8. When \<^verbatim>\<open>save_output_files\<close> has written the metadata, the record in that file
  has as \<open>word_count\<close> the number of tokens that splitting the content at whitespace
  gives, which is the number of whitespace-delimited tokens of the content, and as
  \<open>character_count\<close> the length of the content.
\<close>

theorem metadata_counts:
  "save_output_files U W topic content timestamp fs = (files_saved, fs') \<Longrightarrow>
   map_of files_saved ''metadata'' = Some path \<Longrightarrow>
   \<exists>metadata. fs' path = Some (Json (PDict metadata))
     \<and> map_of metadata ''word_count'' = Some (PInt (int (length (py_split content))))
     \<and> length (py_split content) = token_count content
     \<and> map_of metadata ''character_count'' = Some (PInt (int (length content)))"
proof -
  assume saved: "save_output_files U W topic content timestamp fs = (files_saved, fs')"
    and listed: "map_of files_saved ''metadata'' = Some path"
  let ?metadata = "metadata_of topic content timestamp
        [(''markdown'', file_stem U topic timestamp @ u ''.md''),
         (''text'', file_stem U topic timestamp @ u ''.txt''),
         (''html'', file_stem U topic timestamp @ u ''.html'')]"
  have written: "fs' path = Some (Json (PDict ?metadata))"
    by (rule conjunct2 [OF save_output_files_metadata [OF saved listed]])
  show ?thesis
    using written metadata_word_count metadata_character_count py_split_count by blast
qed


theorem metadata_counts_witness:
  "\<exists>metadata.
     snd (save_output_files ascii_db all_writable (u ''Edge/Case?'') (u '' a b\<newline>c '') t_example
            Map.empty) (u ''outputs/blog_posts/edgecase_20240102_030405_metadata.json'')
       = Some (Json (PDict metadata))
     \<and> map_of metadata ''word_count'' = Some (PInt 3)
     \<and> token_count (u '' a b\<newline>c '') = 3
     \<and> map_of metadata ''character_count'' = Some (PInt 7)"
proof -
  let ?r = "save_output_files ascii_db all_writable (u ''Edge/Case?'') (u '' a b\<newline>c '')
      t_example Map.empty"
  let ?path = "u ''outputs/blog_posts/edgecase_20240102_030405_metadata.json''"
  have saved: "?r = (fst ?r, snd ?r)" by simp
  have listed: "map_of (fst ?r) ''metadata'' = Some ?path"
    by (simp add: slug_values save_output_files_def write_file_def all_writable_def Let_def)
  have tokens: "length (py_split (u '' a b\<newline>c '')) = 3"
    by (simp add: py_split_def py_isspace_def)
  obtain metadata where "snd ?r ?path = Some (Json (PDict metadata))"
    and "map_of metadata ''word_count'' = Some (PInt (int (length (py_split (u '' a b\<newline>c '')))))"
    and "length (py_split (u '' a b\<newline>c '')) = token_count (u '' a b\<newline>c '')"
    and "map_of metadata ''character_count'' = Some (PInt (int (length (u '' a b\<newline>c ''))))"
    using metadata_counts [OF saved listed] by blast
  then show ?thesis using tokens by (intro exI [of _ metadata]) simp
qed

lemma html_content_expanded:
  "html_content topic content
     = u html_head @ topic @ u html_mid @ br_expand content @ u html_tail"
  by (simp only: html_content_def newline_replace)

text \<open>
  C9. Every artifact that \<^verbatim>\<open>save_output_files\<close> reports holds, when the function
  returns: the markdown and the text file the content as it was passed, the HTML file
  the template with the topic in its title and, in its body, the content with every
  newline replaced by \<^verbatim>\<open><br>\<close> and no other character changed.
\<close>

theorem artifact_contents:
  "save_output_files U W topic content timestamp fs = (files_saved, fs') \<Longrightarrow>
   (map_of files_saved ''markdown'' = Some path \<longrightarrow> fs' path = Some (Text content))
   \<and> (map_of files_saved ''text'' = Some path \<longrightarrow> fs' path = Some (Text content))
   \<and> (map_of files_saved ''html'' = Some path \<longrightarrow>
        fs' path = Some (Text (u html_head @ topic @ u html_mid @ br_expand content @ u html_tail)))"
  unfolding html_content_expanded [symmetric]
  by (auto simp add: save_output_files_def write_file_def Let_def split: if_splits)

theorem artifact_contents_witness:
  "snd (save_output_files ascii_db all_writable (u ''Edge/Case?'') (u ''a<b\<newline>&c'') t_example
          Map.empty) (u ''outputs/blog_posts/edgecase_20240102_030405.html'')
     = Some (Text (u html_head @ u ''Edge/Case?'' @ u html_mid @ u ''a<b<br>&c'' @ u html_tail))
   \<and> snd (save_output_files ascii_db all_writable (u ''Edge/Case?'') (u ''a<b\<newline>&c'') t_example
          Map.empty) (u ''outputs/blog_posts/edgecase_20240102_030405.md'')
     = Some (Text (u ''a<b\<newline>&c''))
   \<and> snd (save_output_files ascii_db all_writable (u ''Edge/Case?'') (u ''a<b\<newline>&c'') t_example
          Map.empty) (u ''outputs/blog_posts/edgecase_20240102_030405.txt'')
     = Some (Text (u ''a<b\<newline>&c''))"
proof -
  let ?r = "save_output_files ascii_db all_writable (u ''Edge/Case?'') (u ''a<b\<newline>&c'')
      t_example Map.empty"
  have saved: "?r = (fst ?r, snd ?r)" by simp
  have listed:
    "map_of (fst ?r) ''html'' = Some (u ''outputs/blog_posts/edgecase_20240102_030405.html'')"
    "map_of (fst ?r) ''markdown'' = Some (u ''outputs/blog_posts/edgecase_20240102_030405.md'')"
    "map_of (fst ?r) ''text'' = Some (u ''outputs/blog_posts/edgecase_20240102_030405.txt'')"
    by (simp_all add: slug_values save_output_files_def write_file_def all_writable_def Let_def)
  have expanded: "br_expand (u ''a<b\<newline>&c'') = u ''a<b<br>&c''"
    by (simp add: br_expand_def)
  show ?thesis
    using artifact_contents [OF saved, of "u ''outputs/blog_posts/edgecase_20240102_030405.html''"]
      artifact_contents [OF saved, of "u ''outputs/blog_posts/edgecase_20240102_030405.md''"]
      artifact_contents [OF saved, of "u ''outputs/blog_posts/edgecase_20240102_030405.txt''"]
      listed expanded
    by simp
qed

end
